theory Spec2Isabelle
  imports Complex_Main
begin

section \<open>Computational Equivalence Engine\<close>

text \<open>
  A shallow embedding of \<^verbatim>\<open>computational_equivalence_engine.py\<close>.

  Conventions of the model:
  \<^item> in the engine a Python \<^verbatim>\<open>float\<close> is a \<open>real\<close> that stands for the decimal the
    caller or the source wrote: the engine only compares such numbers with its literals
    and prints them, and the order of the literals is the order of their decimals;
    infinities and NaN are not part of that model, and the percentage \<open>rate * 100\<close> is
    the exact product;
  \<^item> in \<^verbatim>\<open>calculate_convergence_vector\<close>, which subtracts its arguments, a
    \<^verbatim>\<open>float\<close> is an IEEE 754 binary64 value \<open>py_float\<close>: a finite value, an infinity or
    NaN, and the subtraction rounds to the nearest double, ties to even; the sign of a
    zero is not modelled (the function never prints a zero difference);
  \<^item> a Python \<^verbatim>\<open>str\<close> is a \<open>string\<close> of bytes; \<^verbatim>\<open>lower\<close> and \<^verbatim>\<open>split\<close> act on the
    ASCII letters and the ASCII whitespace characters only, so the model speaks about
    ASCII text;
  \<^item> \<^verbatim>\<open>self.analysis_log\<close> is the only state of the engine: every method that appends
    to it takes the engine and returns it updated;
  \<^item> a \<^verbatim>\<open>dict\<close> returned by a gate is a record, a key that only some branches set is
    an option field, and reading an absent key is \<open>KeyError\<close>;
  \<^item> an exception is a value \<open>Inl e\<close> of the result.
\<close>

subsection \<open>Python primitives used by the engine\<close>

datatype py_error = ZeroDivisionError | KeyError

text \<open>\<^verbatim>\<open>str.lower\<close> on ASCII.\<close>

definition py_lower_char :: "char \<Rightarrow> char" where
  "py_lower_char c =
     (let n = (of_char c :: nat) in if 65 \<le> n \<and> n \<le> 90 then char_of (n + 32) else c)"

definition py_lower :: "string \<Rightarrow> string" where
  "py_lower s = map py_lower_char s"

text \<open>\<^verbatim>\<open>str.isspace\<close> on ASCII: TAB, LF, VT, FF, CR, FS, GS, RS, US and the space.\<close>

definition py_isspace :: "char \<Rightarrow> bool" where
  "py_isspace c = (let n = (of_char c :: nat) in (9 \<le> n \<and> n \<le> 13) \<or> (28 \<le> n \<and> n \<le> 32))"

text \<open>\<^verbatim>\<open>str.split()\<close> with no argument: the maximal runs of non-whitespace characters.
  The first argument is the word read so far.\<close>

fun split_ws :: "string \<Rightarrow> string \<Rightarrow> string list" where
  "split_ws w [] = (if w = [] then [] else [w])"
| "split_ws w (c # cs) =
     (if py_isspace c then (if w = [] then split_ws [] cs else w # split_ws [] cs)
      else split_ws (w @ [c]) cs)"

definition py_split :: "string \<Rightarrow> string list" where
  "py_split s = split_ws [] s"

text \<open>\<^verbatim>\<open>str(n)\<close> for a non-negative integer.\<close>

definition digit_char :: "nat \<Rightarrow> char" where
  "digit_char d = char_of (48 + d)"

fun str_nat :: "nat \<Rightarrow> string" where
  "str_nat n = (if n < 10 then [digit_char n] else str_nat (n div 10) @ [digit_char (n mod 10)])"

declare str_nat.simps [simp del]

text \<open>\<^verbatim>\<open>str(b)\<close> for a bool.\<close>

definition str_bool :: "bool \<Rightarrow> string" where
  "str_bool b = (if b then ''True'' else ''False'')"

text \<open>The format \<^verbatim>\<open>:.1f\<close> of a number: one digit after the point, the nearest one, ties
  to the even neighbour, the sign of a negative number kept. Python formats the exact
  value of the double it holds, so on the value of a double this is what it prints.\<close>

definition round_half_even :: "real \<Rightarrow> int" where
  "round_half_even x =
     (let f = \<lfloor>x\<rfloor>; r = x - of_int f
      in if r < 1 / 2 then f else if 1 / 2 < r then f + 1 else if even f then f else f + 1)"

definition format_1f :: "real \<Rightarrow> string" where
  "format_1f x =
     (let n = nat (round_half_even (\<bar>x\<bar> * 10))
      in (if x < 0 then ''-'' else '''') @ str_nat (n div 10) @ ''.'' @ str_nat (n mod 10))"

text \<open>\<^verbatim>\<open>repr\<close> of a float that was written as a decimal literal: the integer part, the
  point, and the digits of the fraction (\<open>0\<close> when there is none). The engine only
  prints its own score constants this way.\<close>

fun frac_digits :: "nat \<Rightarrow> real \<Rightarrow> string" where
  "frac_digits 0 r = []"
| "frac_digits (Suc k) r =
     (if r = 0 then []
      else (let d = nat \<lfloor>r * 10\<rfloor> in digit_char d # frac_digits k (r * 10 - real d)))"

definition repr_float :: "real \<Rightarrow> string" where
  "repr_float x =
     (let a = \<bar>x\<bar>; i = nat \<lfloor>a\<rfloor>; ds = frac_digits 17 (a - real i)
      in (if x < 0 then ''-'' else '''') @ str_nat i @ ''.'' @ (if ds = [] then ''0'' else ds))"

text \<open>\<^verbatim>\<open>sep.join(parts)\<close>.\<close>

fun py_join :: "string \<Rightarrow> string list \<Rightarrow> string" where
  "py_join sep [] = []"
| "py_join sep [x] = x"
| "py_join sep (x # y # ys) = x @ sep @ py_join sep (y # ys)"

text \<open>\<^verbatim>\<open>needle in haystack\<close> on strings.\<close>

fun starts_with :: "string \<Rightarrow> string \<Rightarrow> bool" where
  "starts_with [] s = True"
| "starts_with (p # ps) [] = False"
| "starts_with (p # ps) (c # cs) = (p = c \<and> starts_with ps cs)"

fun contains :: "string \<Rightarrow> string \<Rightarrow> bool" where
  "contains needle [] = (needle = [])"
| "contains needle (c # cs) = (starts_with needle (c # cs) \<or> contains needle cs)"

subsection \<open>IEEE doubles\<close>

text \<open>A double is a finite number, an infinity or NaN. \<open>Fin x\<close> is a double when \<open>x\<close> is
  on the binary64 grid; the operations below return such values.\<close>

datatype py_float = Fin real | PosInf | NegInf | NaN

definition pow2 :: "int \<Rightarrow> real" where
  "pow2 e = (if 0 \<le> e then 2 ^ nat e else 1 / 2 ^ nat (- e))"

text \<open>The binary exponent of a positive number: \<open>2 ^ e \<le> a < 2 ^ (e + 1)\<close>.\<close>

function exp_ge :: "real \<Rightarrow> int" where
  "exp_ge a = (if 2 \<le> a then exp_ge (a / 2) + 1 else 0)"
  by pat_completeness auto
termination
proof (relation "measure (\<lambda>a. nat \<lceil>a\<rceil>)")
  show "wf (measure (\<lambda>a::real. nat \<lceil>a\<rceil>))" by simp
next
  fix a :: real
  assume "2 \<le> a"
  then have "a / 2 \<le> a - 1" by simp
  then have "\<lceil>a / 2\<rceil> \<le> \<lceil>a - 1\<rceil>" by (rule ceiling_mono)
  moreover have "0 < \<lceil>a\<rceil>" using \<open>2 \<le> a\<close> by simp
  ultimately show "(a / 2, a) \<in> measure (\<lambda>a. nat \<lceil>a\<rceil>)" by simp
qed

function exp_lt :: "real \<Rightarrow> int" where
  "exp_lt a = (if 0 < a \<and> a < 1 then exp_lt (a * 2) - 1 else 0)"
  by pat_completeness auto
termination
proof (relation "measure (\<lambda>a. nat \<lceil>1 / a\<rceil>)")
  show "wf (measure (\<lambda>a::real. nat \<lceil>1 / a\<rceil>))" by simp
next
  fix a :: real
  assume a: "0 < a \<and> a < 1"
  then have x: "1 < 1 / a" by simp
  then have c: "2 \<le> \<lceil>1 / a\<rceil>" by linarith
  have "1 / a \<le> of_int \<lceil>1 / a\<rceil>" by simp
  then have "1 / (a * 2) \<le> of_int \<lceil>1 / a\<rceil> / 2" by simp
  also have "\<dots> \<le> of_int (\<lceil>1 / a\<rceil> - 1)" using c by simp
  finally have f: "1 / (a * 2) \<le> of_int (\<lceil>1 / a\<rceil> - 1)" .
  have "\<lceil>1 / (a * 2)\<rceil> \<le> \<lceil>1 / a\<rceil> - 1" by (rule ceiling_le [OF f])
  with c have "nat \<lceil>1 / (a * 2)\<rceil> < nat \<lceil>1 / a\<rceil>" by linarith
  then show "(a * 2, a) \<in> measure (\<lambda>a. nat \<lceil>1 / a\<rceil>)" by (simp only: in_measure)
qed

definition binexp :: "real \<Rightarrow> int" where
  "binexp a = (if 1 \<le> a then exp_ge a else exp_lt a)"

text \<open>Rounding to the nearest double, ties to even: 53 significant bits, the exponent not
  below \<open>-1022\<close> (subnormal numbers share the spacing \<open>2 ^ -1074\<close>), and an infinity
  when the rounded value reaches \<open>2 ^ 1024\<close>. A decimal literal denotes the double it
  rounds to.\<close>

definition round_double :: "real \<Rightarrow> py_float" where
  "round_double x =
     (let a = \<bar>x\<bar>
      in if a = 0 then Fin 0
         else (let e = max (binexp a) (- 1022);
                   q = pow2 (e - 52);
                   n = round_half_even (a / q)
               in if 1024 \<le> e \<or> (e = 1023 \<and> n = 2 ^ 53)
                  then (if 0 < x then PosInf else NegInf)
                  else Fin (sgn x * of_int n * q)))"

text \<open>\<^verbatim>\<open>x - y\<close> on doubles.\<close>

fun py_sub :: "py_float \<Rightarrow> py_float \<Rightarrow> py_float" where
  "py_sub (Fin a) (Fin b) = round_double (a - b)"
| "py_sub (Fin a) PosInf = NegInf"
| "py_sub (Fin a) NegInf = PosInf"
| "py_sub PosInf (Fin b) = PosInf"
| "py_sub PosInf NegInf = PosInf"
| "py_sub NegInf (Fin b) = NegInf"
| "py_sub NegInf PosInf = NegInf"
| "py_sub PosInf PosInf = NaN"
| "py_sub NegInf NegInf = NaN"
| "py_sub NaN y = NaN"
| "py_sub x NaN = NaN"

text \<open>\<^verbatim>\<open>x < y\<close> and \<^verbatim>\<open>x <= y\<close> on doubles: false as soon as one side is NaN.\<close>

fun py_lt :: "py_float \<Rightarrow> py_float \<Rightarrow> bool" where
  "py_lt (Fin a) (Fin b) = (a < b)"
| "py_lt (Fin a) PosInf = True"
| "py_lt NegInf (Fin b) = True"
| "py_lt NegInf PosInf = True"
| "py_lt x y = False"

fun py_le :: "py_float \<Rightarrow> py_float \<Rightarrow> bool" where
  "py_le (Fin a) (Fin b) = (a \<le> b)"
| "py_le (Fin a) PosInf = True"
| "py_le NegInf (Fin b) = True"
| "py_le NegInf PosInf = True"
| "py_le PosInf PosInf = True"
| "py_le NegInf NegInf = True"
| "py_le x y = False"

fun py_abs :: "py_float \<Rightarrow> py_float" where
  "py_abs (Fin a) = Fin \<bar>a\<bar>"
| "py_abs PosInf = PosInf"
| "py_abs NegInf = PosInf"
| "py_abs NaN = NaN"

text \<open>The format \<^verbatim>\<open>:.1f\<close> of a double.\<close>

fun py_format_1f :: "py_float \<Rightarrow> string" where
  "py_format_1f (Fin a) = format_1f a"
| "py_format_1f PosInf = ''inf''"
| "py_format_1f NegInf = ''-inf''"
| "py_format_1f NaN = ''nan''"

subsection \<open>Data model\<close>

datatype EquivalenceLevel =
    TOTAL
  | FUNCTIONAL_STRONG
  | FUNCTIONAL_STANDARD
  | FUNCTIONAL_WEAK
  | PARTIAL_STRONG
  | PARTIAL_STANDARD
  | PARTIAL_WEAK
  | NO_DIRECT

record LegalConcept =
  name :: string
  jurisdiction :: string
  constituent_elements :: "string list"
  regulatory_objective :: string

record FunctionalTest =
  fact_pattern :: string
  reliability_rate :: real
  procedural_friction :: string
  iteration_threshold :: int

record EquivalenceResult =
  distance_score :: real
  level :: EquivalenceLevel
  confidence_interval :: string
  rationale :: string
  step_reached :: int

record engine =
  analysis_log :: "string list"

definition log_append :: "engine \<Rightarrow> string \<Rightarrow> engine" where
  "log_append self line = self\<lparr>analysis_log := analysis_log self @ [line]\<rparr>"

text \<open>The dict of Gate 1. The NO\_DIRECT branch sets three keys, the PARTIAL branch five.\<close>

record step1_dict =
  s1_classification :: string
  s1_provisional_score :: real
  s1_morphology_match :: "nat option"
  s1_teleology_match :: "bool option"
  s1_rationale :: string

text \<open>The dict of Gate 2. The diverging branch sets two keys, the converging branch five.\<close>

record step2_dict =
  s2_outcomes_converge :: bool
  s2_functional_score :: "real option"
  s2_strength :: "string option"
  s2_interval :: "string option"
  s2_rationale :: string

record step3_dict =
  s3_perfect_substitution :: bool
  s3_rationale :: string

subsection \<open>The objective-overlap heuristic\<close>

text \<open>The quotient is a true division: it raises when both token sets are empty.\<close>

definition objectives_substantially_overlap :: "string \<Rightarrow> string \<Rightarrow> py_error + bool" where
  "objectives_substantially_overlap obj_a obj_b =
     (let keywords_a = set (py_split (py_lower obj_a));
          keywords_b = set (py_split (py_lower obj_b));
          d = max (card keywords_a) (card keywords_b)
      in if d = 0 then Inl ZeroDivisionError
         else (let overlap = real (card (keywords_a \<inter> keywords_b)) / real d
               in Inr (0.5 < overlap)))"

subsection \<open>Gate 1\<close>

text \<open>\<^verbatim>\<open>A or f()\<close> calls \<open>f\<close> only when \<open>A\<close> is false.\<close>

definition teleology_match_of :: "string \<Rightarrow> string \<Rightarrow> py_error + bool" where
  "teleology_match_of obj_a obj_b =
     (if py_lower obj_a = py_lower obj_b then Inr True
      else objectives_substantially_overlap obj_a obj_b)"

definition step1_core_feature_filter ::
  "engine \<Rightarrow> LegalConcept \<Rightarrow> LegalConcept \<Rightarrow> (py_error + step1_dict) \<times> engine" where
  "step1_core_feature_filter self concept_a concept_b =
     (let self1 = log_append self ''=== STEP 1: PARTIAL EQUIVALENCY TEST ==='';
          common_elements = set (constituent_elements concept_a) \<inter> set (constituent_elements concept_b);
          morphology_match = card common_elements
      in case teleology_match_of (regulatory_objective concept_a) (regulatory_objective concept_b) of
           Inl e \<Rightarrow> (Inl e, self1)
         | Inr teleology_match \<Rightarrow>
            (let self2 = log_append self1
                   (''Morphological overlap: '' @ str_nat morphology_match @ '' shared elements'');
                 self3 = log_append self2 (''Teleological match: '' @ str_bool teleology_match)
             in if morphology_match = 0 \<and> \<not> teleology_match then
                  (Inr \<lparr>s1_classification = ''NO_DIRECT'',
                        s1_provisional_score = 3.0,
                        s1_morphology_match = None,
                        s1_teleology_match = None,
                        s1_rationale =
                          ''Concepts share neither structural elements nor regulatory objectives.''\<rparr>,
                   log_append self3 ''RESULT: No basis for comparison (Category Error)'')
                else
                  (let (provisional_score, strength) =
                         (if 3 \<le> morphology_match then (2.0, ''Strong'')
                          else if 1 \<le> morphology_match then (2.5, ''Standard'')
                          else (2.9, ''Weak''));
                       self4 = log_append self3
                         (''RESULT: '' @ strength @ '' Partial Equivalent (provisional d = ''
                            @ repr_float provisional_score @ '')'');
                       self5 = log_append self4
                         (CHR 0xE2 # CHR 0x86 # CHR 0x92 # '' Proceeding to Step 2'')
                   in (Inr \<lparr>s1_classification = ''PARTIAL'',
                            s1_provisional_score = provisional_score,
                            s1_morphology_match = Some morphology_match,
                            s1_teleology_match = Some teleology_match,
                            s1_rationale =
                              strength @ '' feature overlap detected ('' @ str_nat morphology_match
                                @ '' structural + teleological alignment)''\<rparr>,
                       self5))))"

subsection \<open>Gate 2\<close>

definition step2_same_outcome_filter :: "engine \<Rightarrow> FunctionalTest \<Rightarrow> step2_dict \<times> engine" where
  "step2_same_outcome_filter self functional_test =
     (let self1 = log_append self (CHR 0x0A # ''=== STEP 2: FUNCTIONAL EQUIVALENCY TEST ==='');
          self2 = log_append self1 (''Fact pattern: '' @ fact_pattern functional_test);
          self3 = log_append self2
            (''Reliability rate: '' @ format_1f (reliability_rate functional_test * 100) @ ''%'');
          self4 = log_append self3
            (''Procedural friction: '' @ procedural_friction functional_test)
      in if reliability_rate functional_test < 0.85 then
           (\<lparr>s2_outcomes_converge = False,
             s2_functional_score = None,
             s2_strength = None,
             s2_interval = None,
             s2_rationale =
               ''Reliability rate ('' @ format_1f (reliability_rate functional_test * 100)
                 @ ''%) below functional threshold''\<rparr>,
            log_append self4 ''RESULT: Outcomes diverge (reliability < 85%)'')
         else
           (let (functional_score, strength, interval) =
                  (if 0.95 < reliability_rate functional_test
                      \<and> procedural_friction functional_test = ''low''
                      \<and> iteration_threshold functional_test = 1
                   then (0.15, ''Strong (Constitutional)'', ''0.1-0.2'')
                   else if 0.95 < reliability_rate functional_test
                      \<and> procedural_friction functional_test = ''high''
                   then (0.35, ''Strong (Plenary)'', ''0.3-0.4'')
                   else if 0.90 < reliability_rate functional_test
                   then (1.0, ''Standard'', ''0.5-1.4'')
                   else (1.7, ''Weak'', ''1.5-1.9''));
                self5 = log_append self4
                  (''RESULT: Outcomes converge - '' @ strength @ '' Functional Equivalent (d = ''
                     @ repr_float functional_score @ '')'');
                self6 = log_append self5
                  (CHR 0xE2 # CHR 0x86 # CHR 0x92 # '' Proceeding to Step 3'')
            in (\<lparr>s2_outcomes_converge = True,
                  s2_functional_score = Some functional_score,
                  s2_strength = Some strength,
                  s2_interval = Some interval,
                  s2_rationale =
                    strength @ '' functional match (reliability ''
                      @ format_1f (reliability_rate functional_test * 100) @ ''%, ''
                      @ procedural_friction functional_test @ '' friction)''\<rparr>,
                self6)))"

subsection \<open>Gate 3\<close>

definition step3_perfect_substitution_filter ::
  "engine \<Rightarrow> LegalConcept \<Rightarrow> LegalConcept \<Rightarrow> FunctionalTest \<Rightarrow> step3_dict \<times> engine" where
  "step3_perfect_substitution_filter self concept_a concept_b functional_test =
     (let self1 = log_append self (CHR 0x0A # ''=== STEP 3: TOTAL EQUIVALENCY TEST ==='');
          all_elements_match =
            (set (constituent_elements concept_a) = set (constituent_elements concept_b));
          objectives_identical = (regulatory_objective concept_a = regulatory_objective concept_b);
          zero_friction = (procedural_friction functional_test = ''low'');
          self2 = log_append self1 (''All elements identical: '' @ str_bool all_elements_match);
          self3 = log_append self2 (''Objectives identical: '' @ str_bool objectives_identical);
          self4 = log_append self3 (''Zero procedural friction: '' @ str_bool zero_friction)
      in if all_elements_match \<and> objectives_identical \<and> zero_friction then
           (\<lparr>s3_perfect_substitution = True,
             s3_rationale =
               ''Concepts are superimposable - perfect one-to-one match in all dimensions''\<rparr>,
            log_append self4 ''RESULT: Perfect substitution confirmed (Total Equivalent)'')
         else
           (\<lparr>s3_perfect_substitution = False,
             s3_rationale = ''Concepts achieve same outcome but remain doctrinally distinct''\<rparr>,
            log_append self4 ''RESULT: Doctrinal divergence detected (not Total Equivalent)''))"

subsection \<open>Finalizers\<close>

definition finalize_partial_equivalent :: "real \<Rightarrow> string \<Rightarrow> EquivalenceResult" where
  "finalize_partial_equivalent score rat =
     (let (lvl, interval) =
            (if score \<le> 2.1 then (PARTIAL_STRONG, ''2.0-2.1'')
             else if score \<le> 2.7 then (PARTIAL_STANDARD, ''2.2-2.7'')
             else (PARTIAL_WEAK, ''2.8-2.9''))
      in \<lparr>distance_score = score,
          level = lvl,
          confidence_interval = ''d = '' @ interval,
          rationale = rat @ '' (Structural overlap but functional divergence)'',
          step_reached = 2\<rparr>)"

definition finalize_functional_equivalent :: "real \<Rightarrow> string \<Rightarrow> EquivalenceResult" where
  "finalize_functional_equivalent score rat =
     (let (lvl, interval) =
            (if score \<le> 0.4 then (FUNCTIONAL_STRONG, ''0.1-0.4'')
             else if score \<le> 1.4 then (FUNCTIONAL_STANDARD, ''0.5-1.4'')
             else (FUNCTIONAL_WEAK, ''1.5-1.9''))
      in \<lparr>distance_score = score,
          level = lvl,
          confidence_interval = ''d = '' @ interval,
          rationale = rat @ '' (Same practical outcome despite formal differences)'',
          step_reached = 3\<rparr>)"

subsection \<open>The entry point\<close>

definition analyze ::
  "engine \<Rightarrow> LegalConcept \<Rightarrow> LegalConcept \<Rightarrow> FunctionalTest option
     \<Rightarrow> (py_error + EquivalenceResult) \<times> engine" where
  "analyze self concept_a concept_b functional_test =
     (let self0 = self\<lparr>analysis_log := []\<rparr>
      in case step1_core_feature_filter self0 concept_a concept_b of
           (Inl e, self1) \<Rightarrow> (Inl e, self1)
         | (Inr step1_result, self1) \<Rightarrow>
             if s1_classification step1_result = ''NO_DIRECT'' then
               (Inr \<lparr>distance_score = 3.0,
                     level = NO_DIRECT,
                     confidence_interval = ''d = 3.0'',
                     rationale = s1_rationale step1_result,
                     step_reached = 1\<rparr>,
                self1)
             else
               (let partial_score = s1_provisional_score step1_result
                in case functional_test of
                     None \<Rightarrow>
                       (Inr (finalize_partial_equivalent partial_score (s1_rationale step1_result)),
                        self1)
                   | Some ft \<Rightarrow>
                       (case step2_same_outcome_filter self1 ft of
                          (step2_result, self2) \<Rightarrow>
                            if \<not> s2_outcomes_converge step2_result then
                              (Inr (finalize_partial_equivalent partial_score
                                      (s2_rationale step2_result)),
                               self2)
                            else
                              (case s2_functional_score step2_result of
                                 None \<Rightarrow> (Inl KeyError, self2)
                               | Some functional_score \<Rightarrow>
                                   (case step3_perfect_substitution_filter self2
                                           concept_a concept_b ft of
                                      (step3_result, self3) \<Rightarrow>
                                        if s3_perfect_substitution step3_result then
                                          (Inr \<lparr>distance_score = 0.0,
                                                level = TOTAL,
                                                confidence_interval = ''d = 0.0'',
                                                rationale = s3_rationale step3_result,
                                                step_reached = 3\<rparr>,
                                           self3)
                                        else
                                          (Inr (finalize_functional_equivalent functional_score
                                                  (s2_rationale step2_result)),
                                           self3))))))"

definition get_analysis_log :: "engine \<Rightarrow> string" where
  "get_analysis_log self = py_join [CHR 0x0A] (analysis_log self)"

subsection \<open>The convergence vector\<close>

text \<open>Both arguments are doubles; \<open>0\<close> and \<open>1.5\<close> are doubles themselves.\<close>

definition calculate_convergence_vector :: "py_float \<Rightarrow> py_float \<Rightarrow> py_float \<times> string" where
  "calculate_convergence_vector d_t1 d_t2 =
     (let v_legal = py_sub d_t1 d_t2
      in if py_lt (Fin 0) v_legal then
           (let magnitude = (if py_le (Fin 1.5) (py_abs v_legal) then ''High'' else ''Incremental'')
            in (v_legal,
                ''Legal Convergence (+'' @ py_format_1f v_legal @ '') - '' @ magnitude
                  @ '' harmonization''))
         else if py_lt v_legal (Fin 0) then
           (let magnitude = (if py_le (Fin 1.5) (py_abs v_legal) then ''High'' else ''Incremental'')
            in (v_legal,
                ''Legal Divergence ('' @ py_format_1f v_legal @ '') - '' @ magnitude @ '' drift''))
         else (v_legal, ''Stable Equivalence (0.0) - No net change or Feature Shift''))"

subsection \<open>Example inputs\<close>

text \<open>Two concepts with three shared elements and objectives that agree up to case.\<close>

definition amparo :: LegalConcept where
  "amparo = \<lparr>name = ''Recurso de Amparo'', jurisdiction = ''ES'',
              constituent_elements = [''petition'', ''standing'', ''remedy''],
              regulatory_objective = ''Protect rights''\<rparr>"

definition writ :: LegalConcept where
  "writ = \<lparr>name = ''Constitutional Writ'', jurisdiction = ''IN'',
            constituent_elements = [''standing'', ''remedy'', ''petition'', ''bench''],
            regulatory_objective = ''protect rights''\<rparr>"

text \<open>A concept that shares one element with \<open>amparo\<close> and none of the words of its
  objective.\<close>

definition tutela :: LegalConcept where
  "tutela = \<lparr>name = ''Accion de Tutela'', jurisdiction = ''CO'',
              constituent_elements = [''petition'', ''oral hearing''],
              regulatory_objective = ''speedy relief''\<rparr>"

text \<open>A concept that shares nothing with the three above.\<close>

definition excise :: LegalConcept where
  "excise = \<lparr>name = ''Excise Duty'', jurisdiction = ''UK'',
              constituent_elements = [''levy''],
              regulatory_objective = ''raise revenue''\<rparr>"

text \<open>Concepts without elements: one with an objective, two whose objectives hold no
  token (the empty string and a single space).\<close>

definition bare :: LegalConcept where
  "bare = \<lparr>name = ''Bare'', jurisdiction = ''X'',
            constituent_elements = [],
            regulatory_objective = ''protect rights''\<rparr>"

definition blank_a :: LegalConcept where
  "blank_a = \<lparr>name = ''A'', jurisdiction = ''X'',
               constituent_elements = [],
               regulatory_objective = []\<rparr>"

definition blank_b :: LegalConcept where
  "blank_b = \<lparr>name = ''B'', jurisdiction = ''Y'',
               constituent_elements = [],
               regulatory_objective = '' ''\<rparr>"

text \<open>Two concepts with disjoint, non-empty elements whose objectives hold no token.\<close>

definition blank_levy :: LegalConcept where
  "blank_levy = \<lparr>name = ''Levy'', jurisdiction = ''UK'',
                  constituent_elements = [''levy''],
                  regulatory_objective = []\<rparr>"

definition blank_writ :: LegalConcept where
  "blank_writ = \<lparr>name = ''Writ'', jurisdiction = ''IN'',
                  constituent_elements = [''petition'', ''standing''],
                  regulatory_objective = '' ''\<rparr>"

definition test_of :: "real \<Rightarrow> string \<Rightarrow> int \<Rightarrow> FunctionalTest" where
  "test_of rate friction n =
     \<lparr>fact_pattern = ''urgent petition'', reliability_rate = rate,
       procedural_friction = friction, iteration_threshold = n\<rparr>"

definition fresh :: engine where
  "fresh = \<lparr>analysis_log = []\<rparr>"

section \<open>Properties\<close>

subsection \<open>What each gate returns\<close>

text \<open>The dict a gate returns does not depend on the log it appends to.\<close>

lemma step1_fst:
  "fst (step1_core_feature_filter self a b) =
     (case teleology_match_of (regulatory_objective a) (regulatory_objective b) of
        Inl e \<Rightarrow> Inl e
      | Inr t \<Rightarrow>
          (let n = card (set (constituent_elements a) \<inter> set (constituent_elements b))
           in if n = 0 \<and> \<not> t then
                Inr \<lparr>s1_classification = ''NO_DIRECT'', s1_provisional_score = 3,
                      s1_morphology_match = None, s1_teleology_match = None,
                      s1_rationale =
                        ''Concepts share neither structural elements nor regulatory objectives.''\<rparr>
              else
                Inr \<lparr>s1_classification = ''PARTIAL'',
                      s1_provisional_score = (if 3 \<le> n then 2 else if 1 \<le> n then 2.5 else 2.9),
                      s1_morphology_match = Some n, s1_teleology_match = Some t,
                      s1_rationale =
                        (if 3 \<le> n then ''Strong'' else if 1 \<le> n then ''Standard'' else ''Weak'')
                          @ '' feature overlap detected ('' @ str_nat n
                          @ '' structural + teleological alignment)''\<rparr>))"
  by (simp add: step1_core_feature_filter_def Let_def split: sum.splits)

lemma step2_fst:
  "fst (step2_same_outcome_filter self ft) =
     (if reliability_rate ft < 0.85 then
        \<lparr>s2_outcomes_converge = False, s2_functional_score = None, s2_strength = None,
          s2_interval = None,
          s2_rationale = ''Reliability rate ('' @ format_1f (reliability_rate ft * 100)
                 @ ''%) below functional threshold''\<rparr>
      else
        (let tier = (if 0.95 < reliability_rate ft \<and> procedural_friction ft = ''low''
                        \<and> iteration_threshold ft = 1
                     then (0.15, ''Strong (Constitutional)'', ''0.1-0.2'')
                     else if 0.95 < reliability_rate ft \<and> procedural_friction ft = ''high''
                     then (0.35, ''Strong (Plenary)'', ''0.3-0.4'')
                     else if 0.90 < reliability_rate ft
                     then (1.0, ''Standard'', ''0.5-1.4'')
                     else (1.7, ''Weak'', ''1.5-1.9''))
         in \<lparr>s2_outcomes_converge = True, s2_functional_score = Some (fst tier),
              s2_strength = Some (fst (snd tier)), s2_interval = Some (snd (snd tier)),
              s2_rationale = fst (snd tier) @ '' functional match (reliability ''
                      @ format_1f (reliability_rate ft * 100) @ ''%, ''
                      @ procedural_friction ft @ '' friction)''\<rparr>))"
  by (simp add: step2_same_outcome_filter_def Let_def)

lemma step3_fst:
  "fst (step3_perfect_substitution_filter self a b ft) =
     (if set (constituent_elements a) = set (constituent_elements b)
         \<and> regulatory_objective a = regulatory_objective b
         \<and> procedural_friction ft = ''low''
      then \<lparr>s3_perfect_substitution = True,
             s3_rationale =
               ''Concepts are superimposable - perfect one-to-one match in all dimensions''\<rparr>
      else \<lparr>s3_perfect_substitution = False,
             s3_rationale = ''Concepts achieve same outcome but remain doctrinally distinct''\<rparr>)"
  by (simp add: step3_perfect_substitution_filter_def Let_def)

text \<open>The result of \<open>analyze\<close>, read off the dicts of the three gates.\<close>

lemma analyze_fst:
  "fst (analyze self a b ft) =
     (case fst (step1_core_feature_filter self a b) of
        Inl e \<Rightarrow> Inl e
      | Inr s1 \<Rightarrow>
          if s1_classification s1 = ''NO_DIRECT'' then
            Inr \<lparr>distance_score = 3, level = NO_DIRECT, confidence_interval = ''d = 3.0'',
                  rationale = s1_rationale s1, step_reached = 1\<rparr>
          else
            (case ft of
               None \<Rightarrow> Inr (finalize_partial_equivalent (s1_provisional_score s1) (s1_rationale s1))
             | Some f \<Rightarrow>
                 (let s2 = fst (step2_same_outcome_filter self f)
                  in if \<not> s2_outcomes_converge s2 then
                       Inr (finalize_partial_equivalent (s1_provisional_score s1) (s2_rationale s2))
                     else
                       (case s2_functional_score s2 of
                          None \<Rightarrow> Inl KeyError
                        | Some fs \<Rightarrow>
                            if s3_perfect_substitution
                                 (fst (step3_perfect_substitution_filter self a b f))
                            then Inr \<lparr>distance_score = 0, level = TOTAL,
                                       confidence_interval = ''d = 0.0'',
                                       rationale = s3_rationale
                                         (fst (step3_perfect_substitution_filter self a b f)),
                                       step_reached = 3\<rparr>
                            else Inr (finalize_functional_equivalent fs (s2_rationale s2))))))"
proof -
  let ?s0 = "self\<lparr>analysis_log := []\<rparr>"
  let ?s1 = "snd (step1_core_feature_filter ?s0 a b)"
  have e1: "fst (step1_core_feature_filter ?s0 a b) = fst (step1_core_feature_filter self a b)"
    by (simp only: step1_fst)
  show ?thesis
  proof (cases ft)
    case None
    then show ?thesis
      unfolding analyze_def Let_def split_beta e1
      by (simp split: sum.splits)
  next
    case (Some f)
    let ?s2 = "snd (step2_same_outcome_filter ?s1 f)"
    have e2: "fst (step2_same_outcome_filter ?s1 f) = fst (step2_same_outcome_filter self f)"
      by (simp only: step2_fst)
    have e3: "fst (step3_perfect_substitution_filter ?s2 a b f)
                = fst (step3_perfect_substitution_filter self a b f)"
      by (simp only: step3_fst)
    show ?thesis
      unfolding analyze_def Let_def split_beta e1 Some option.case e2 e3
      by (simp split: sum.splits option.splits)
  qed
qed

lemma step1_provisional:
  assumes "fst (step1_core_feature_filter self a b) = Inr s1"
  shows "s1_classification s1 = ''NO_DIRECT''
       \<or> (s1_classification s1 = ''PARTIAL'' \<and> s1_provisional_score s1 \<in> {2.0, 2.5, 2.9})"
  using assms
  by (auto simp: step1_fst Let_def split: sum.splits if_splits)

lemma step2_functional:
  assumes "s2_outcomes_converge (fst (step2_same_outcome_filter self f))"
  shows "\<exists>fs. s2_functional_score (fst (step2_same_outcome_filter self f)) = Some fs
            \<and> fs \<in> {0.15, 0.35, 1.0, 1.7}"
  using assms
  by (simp add: step2_fst Let_def split: if_splits)

text \<open>Every result of \<open>analyze\<close> comes from one of its four return statements.\<close>

lemma analyze_result_cases:
  assumes "fst (analyze self a b ft) = Inr r"
  obtains
    (no_direct) "distance_score r = 3.0" "level r = NO_DIRECT"
                "confidence_interval r = ''d = 3.0''" "step_reached r = 1"
  | (total) "distance_score r = 0.0" "level r = TOTAL"
            "confidence_interval r = ''d = 0.0''" "step_reached r = 3"
  | (partial) s rat where "r = finalize_partial_equivalent s rat" "s \<in> {2.0, 2.5, 2.9}"
  | (functional) s rat where "r = finalize_functional_equivalent s rat"
                             "s \<in> {0.15, 0.35, 1.0, 1.7}"
proof (cases "fst (step1_core_feature_filter self a b)")
  case (Inl e)
  with assms show ?thesis by (simp add: analyze_fst)
next
  case (Inr s1)
  note s1 = this
  show ?thesis
  proof (cases "s1_classification s1 = ''NO_DIRECT''")
    case True
    with assms s1
    have "r = \<lparr>distance_score = 3, level = NO_DIRECT, confidence_interval = ''d = 3.0'',
                rationale = s1_rationale s1, step_reached = 1\<rparr>"
      by (simp add: analyze_fst)
    then show ?thesis using no_direct by simp
  next
    case False
    with step1_provisional [OF s1] have sc: "s1_provisional_score s1 \<in> {2.0, 2.5, 2.9}"
      by blast
    show ?thesis
    proof (cases ft)
      case None
      with assms s1 False
      have "r = finalize_partial_equivalent (s1_provisional_score s1) (s1_rationale s1)"
        by (simp add: analyze_fst)
      then show ?thesis using partial sc by blast
    next
      case (Some f)
      let ?s2 = "fst (step2_same_outcome_filter self f)"
      show ?thesis
      proof (cases "s2_outcomes_converge ?s2")
        case False
        with assms s1 Some \<open>s1_classification s1 \<noteq> ''NO_DIRECT''\<close>
        have "r = finalize_partial_equivalent (s1_provisional_score s1) (s2_rationale ?s2)"
          by (simp add: analyze_fst Let_def)
        then show ?thesis using partial sc by blast
      next
        case True
        from step2_functional [OF True] obtain fs
          where fs: "s2_functional_score ?s2 = Some fs" "fs \<in> {0.15, 0.35, 1.0, 1.7}"
          by blast
        let ?s3 = "fst (step3_perfect_substitution_filter self a b f)"
        show ?thesis
        proof (cases "s3_perfect_substitution ?s3")
          case True
          with assms s1 Some \<open>s1_classification s1 \<noteq> ''NO_DIRECT''\<close>
               \<open>s2_outcomes_converge ?s2\<close> fs(1)
          have "r = \<lparr>distance_score = 0, level = TOTAL, confidence_interval = ''d = 0.0'',
                      rationale = s3_rationale ?s3, step_reached = 3\<rparr>"
            by (simp add: analyze_fst Let_def)
          then show ?thesis using total by simp
        next
          case False
          with assms s1 Some \<open>s1_classification s1 \<noteq> ''NO_DIRECT''\<close>
               \<open>s2_outcomes_converge ?s2\<close> fs(1)
          have "r = finalize_functional_equivalent fs (s2_rationale ?s2)"
            by (simp add: analyze_fst Let_def)
          then show ?thesis using functional fs(2) by blast
        qed
      qed
    qed
  qed
qed

text \<open>The finalizers on the scores the gates can hand them.\<close>

lemma finalize_partial_level:
  assumes "s \<in> {2.0, 2.5, 2.9}"
  shows "finalize_partial_equivalent s rat =
           \<lparr>distance_score = s,
             level = (if s = 2.0 then PARTIAL_STRONG else if s = 2.5 then PARTIAL_STANDARD
                      else PARTIAL_WEAK),
             confidence_interval = (if s = 2.0 then ''d = 2.0-2.1''
                                    else if s = 2.5 then ''d = 2.2-2.7'' else ''d = 2.8-2.9''),
             rationale = rat @ '' (Structural overlap but functional divergence)'',
             step_reached = 2\<rparr>"
  using assms by (auto simp: finalize_partial_equivalent_def)

lemma finalize_functional_level:
  assumes "s \<in> {0.15, 0.35, 1.0, 1.7}"
  shows "finalize_functional_equivalent s rat =
           \<lparr>distance_score = s,
             level = (if s = 0.15 \<or> s = 0.35 then FUNCTIONAL_STRONG
                      else if s = 1.0 then FUNCTIONAL_STANDARD else FUNCTIONAL_WEAK),
             confidence_interval = (if s = 0.15 \<or> s = 0.35 then ''d = 0.1-0.4''
                                    else if s = 1.0 then ''d = 0.5-1.4'' else ''d = 1.5-1.9''),
             rationale = rat @ '' (Same practical outcome despite formal differences)'',
             step_reached = 3\<rparr>"
  using assms by (auto simp: finalize_functional_equivalent_def)

text \<open>Gate 1 answers the same whatever the log holds, and its provisional score is
  read off the number of shared elements.\<close>

lemma step1_fst_engine:
  "fst (step1_core_feature_filter self a b) = fst (step1_core_feature_filter self' a b)"
  by (simp only: step1_fst)

lemma step1_partial_count:
  assumes "fst (step1_core_feature_filter self a b) = Inr s1"
      and "s1_classification s1 \<noteq> ''NO_DIRECT''"
  shows "s1_provisional_score s1 =
           (if 3 \<le> card (set (constituent_elements a) \<inter> set (constituent_elements b)) then 2.0
            else if 1 \<le> card (set (constituent_elements a) \<inter> set (constituent_elements b))
            then 2.5 else 2.9)"
  using assms
  by (auto simp: step1_fst Let_def split: sum.splits if_splits)

subsection \<open>C1: the score lies in the range of the level\<close>

text \<open>
  Claim C1. Whenever \<open>analyze\<close> returns a result, its \<open>distance_score\<close> lies in the
  sub-range of its \<open>level\<close>: 3.0 for NO\_DIRECT, 0.0 for TOTAL, [2.0, 2.1] for
  PARTIAL\_STRONG, [2.2, 2.7] for PARTIAL\_STANDARD, [2.8, 2.9] for PARTIAL\_WEAK,
  [0.1, 0.4] for FUNCTIONAL\_STRONG, [0.5, 1.4] for FUNCTIONAL\_STANDARD and [1.5, 1.9]
  for FUNCTIONAL\_WEAK.
\<close>

theorem analyze_distance_score_in_level_range:
  assumes "fst (analyze self a b ft) = Inr r"
  shows "(level r = NO_DIRECT \<longrightarrow> distance_score r = 3.0)
       \<and> (level r = TOTAL \<longrightarrow> distance_score r = 0.0)
       \<and> (level r = PARTIAL_STRONG \<longrightarrow> 2.0 \<le> distance_score r \<and> distance_score r \<le> 2.1)
       \<and> (level r = PARTIAL_STANDARD \<longrightarrow> 2.2 \<le> distance_score r \<and> distance_score r \<le> 2.7)
       \<and> (level r = PARTIAL_WEAK \<longrightarrow> 2.8 \<le> distance_score r \<and> distance_score r \<le> 2.9)
       \<and> (level r = FUNCTIONAL_STRONG \<longrightarrow> 0.1 \<le> distance_score r \<and> distance_score r \<le> 0.4)
       \<and> (level r = FUNCTIONAL_STANDARD \<longrightarrow> 0.5 \<le> distance_score r \<and> distance_score r \<le> 1.4)
       \<and> (level r = FUNCTIONAL_WEAK \<longrightarrow> 1.5 \<le> distance_score r \<and> distance_score r \<le> 1.9)"
  using assms
proof (cases rule: analyze_result_cases)
  case no_direct
  then show ?thesis by simp
next
  case total
  then show ?thesis by simp
next
  case (partial s rat)
  from partial(2) show ?thesis
    unfolding partial(1) finalize_partial_level [OF partial(2)] by auto
next
  case (functional s rat)
  from functional(2) show ?thesis
    unfolding functional(1) finalize_functional_level [OF functional(2)] by auto
qed

theorem analyze_distance_score_in_level_range_witness:
  "fst (analyze fresh amparo writ (Some (test_of 0.92 ''standard'' 2)))
     = Inr \<lparr>distance_score = 1.0, level = FUNCTIONAL_STANDARD,
             confidence_interval = ''d = 0.5-1.4'',
             rationale = ''Standard functional match (reliability 92.0%, standard friction)''
               @ '' (Same practical outcome despite formal differences)'',
             step_reached = 3\<rparr>
   \<and> 0.5 \<le> distance_score (projr (fst (analyze fresh amparo writ
                (Some (test_of 0.92 ''standard'' 2)))))
   \<and> distance_score (projr (fst (analyze fresh amparo writ
                (Some (test_of 0.92 ''standard'' 2))))) \<le> 1.4"
proof -
  let ?r = "\<lparr>distance_score = 1.0, level = FUNCTIONAL_STANDARD,
             confidence_interval = ''d = 0.5-1.4'',
             rationale = ''Standard functional match (reliability 92.0%, standard friction)''
               @ '' (Same practical outcome despite formal differences)'',
             step_reached = 3\<rparr>"
  have h: "fst (analyze fresh amparo writ (Some (test_of 0.92 ''standard'' 2))) = Inr ?r"
    unfolding fresh_def amparo_def writ_def test_of_def by code_simp
  from analyze_distance_score_in_level_range [OF h]
  have "0.5 \<le> distance_score ?r \<and> distance_score ?r \<le> 1.4"
    by simp
  with h show ?thesis by simp
qed

subsection \<open>C2: the precedence of Gate 2\<close>

text \<open>
  Claim C2. For every functional test with \<open>reliability_rate \<ge> 0.85\<close>, Gate 2 reports
  convergence and the functional score is given by the first rule that matches:
  rate above 0.95 with friction \<open>low\<close> and iteration threshold 1 gives 0.15; else rate above
  0.95 with friction \<open>high\<close> gives 0.35; else rate above 0.90 gives 1.0; otherwise 1.7.
  In particular a rate above 0.95 with friction \<open>standard\<close>, or with friction \<open>low\<close> and an
  iteration threshold of 2 or more, gives 1.0, and a rate of exactly 0.90 or exactly 0.85
  gives 1.7.
\<close>

theorem step2_functional_score_precedence:
  assumes "0.85 \<le> reliability_rate ft"
  shows "s2_outcomes_converge (fst (step2_same_outcome_filter self ft))
       \<and> s2_functional_score (fst (step2_same_outcome_filter self ft)) =
           Some (if 0.95 < reliability_rate ft \<and> procedural_friction ft = ''low''
                    \<and> iteration_threshold ft = 1 then 0.15
                 else if 0.95 < reliability_rate ft \<and> procedural_friction ft = ''high'' then 0.35
                 else if 0.90 < reliability_rate ft then 1.0
                 else 1.7)
       \<and> (0.95 < reliability_rate ft \<and> procedural_friction ft = ''standard''
            \<longrightarrow> s2_functional_score (fst (step2_same_outcome_filter self ft)) = Some 1.0)
       \<and> (0.95 < reliability_rate ft \<and> procedural_friction ft = ''low''
              \<and> 2 \<le> iteration_threshold ft
            \<longrightarrow> s2_functional_score (fst (step2_same_outcome_filter self ft)) = Some 1.0)
       \<and> (reliability_rate ft = 0.90 \<or> reliability_rate ft = 0.85
            \<longrightarrow> s2_functional_score (fst (step2_same_outcome_filter self ft)) = Some 1.7)"
proof -
  let ?s2 = "fst (step2_same_outcome_filter self ft)"
  from assms have nlt: "\<not> reliability_rate ft < 0.85" by simp
  have conv: "s2_outcomes_converge ?s2"
    using nlt by (simp add: step2_fst Let_def)
  have score: "s2_functional_score ?s2 =
           Some (if 0.95 < reliability_rate ft \<and> procedural_friction ft = ''low''
                    \<and> iteration_threshold ft = 1 then 0.15
                 else if 0.95 < reliability_rate ft \<and> procedural_friction ft = ''high'' then 0.35
                 else if 0.90 < reliability_rate ft then 1.0
                 else 1.7)"
    using nlt by (simp add: step2_fst Let_def)
  have std: "0.95 < reliability_rate ft \<and> procedural_friction ft = ''standard''
            \<longrightarrow> s2_functional_score ?s2 = Some 1.0"
    unfolding score by simp
  have low2: "0.95 < reliability_rate ft \<and> procedural_friction ft = ''low''
              \<and> 2 \<le> iteration_threshold ft
            \<longrightarrow> s2_functional_score ?s2 = Some 1.0"
    unfolding score by simp
  have edge: "reliability_rate ft = 0.90 \<or> reliability_rate ft = 0.85
            \<longrightarrow> s2_functional_score ?s2 = Some 1.7"
    unfolding score by auto
  from conv score std low2 edge show ?thesis by blast
qed

theorem step2_functional_score_precedence_witness:
  "s2_functional_score (fst (step2_same_outcome_filter fresh (test_of 0.97 ''standard'' 1)))
     = Some 1.0
   \<and> s2_functional_score (fst (step2_same_outcome_filter fresh (test_of 0.97 ''low'' 2)))
     = Some 1.0
   \<and> s2_functional_score (fst (step2_same_outcome_filter fresh (test_of 0.97 ''low'' 1)))
     = Some 0.15
   \<and> s2_functional_score (fst (step2_same_outcome_filter fresh (test_of 0.97 ''high'' 1)))
     = Some 0.35
   \<and> s2_outcomes_converge (fst (step2_same_outcome_filter fresh (test_of 0.90 ''low'' 1)))
   \<and> s2_functional_score (fst (step2_same_outcome_filter fresh (test_of 0.90 ''low'' 1)))
     = Some 1.7
   \<and> s2_outcomes_converge (fst (step2_same_outcome_filter fresh (test_of 0.85 ''low'' 1)))
   \<and> s2_functional_score (fst (step2_same_outcome_filter fresh (test_of 0.85 ''low'' 1)))
     = Some 1.7"
  using step2_functional_score_precedence [of "test_of 0.97 ''standard'' 1" fresh]
        step2_functional_score_precedence [of "test_of 0.97 ''low'' 2" fresh]
        step2_functional_score_precedence [of "test_of 0.97 ''low'' 1" fresh]
        step2_functional_score_precedence [of "test_of 0.97 ''high'' 1" fresh]
        step2_functional_score_precedence [of "test_of 0.90 ''low'' 1" fresh]
        step2_functional_score_precedence [of "test_of 0.85 ''low'' 1" fresh]
  by (simp add: test_of_def)

subsection \<open>C3: no basis for comparison\<close>

text \<open>When the element sets are disjoint, the objectives differ after \<open>lower\<close> and the
  overlap heuristic answers \<open>False\<close>, \<open>analyze\<close> returns the NO\_DIRECT result, whether a
  functional test is supplied or not.\<close>

lemma analyze_no_direct_when_heuristic_answers:
  assumes "set (constituent_elements a) \<inter> set (constituent_elements b) = {}"
      and "py_lower (regulatory_objective a) \<noteq> py_lower (regulatory_objective b)"
      and "objectives_substantially_overlap (regulatory_objective a) (regulatory_objective b)
             = Inr False"
  shows "fst (analyze self a b ft) =
           Inr \<lparr>distance_score = 3.0, level = NO_DIRECT, confidence_interval = ''d = 3.0'',
                 rationale =
                   ''Concepts share neither structural elements nor regulatory objectives.'',
                 step_reached = 1\<rparr>"
proof -
  from assms(2,3)
  have t: "teleology_match_of (regulatory_objective a) (regulatory_objective b) = Inr False"
    by (simp add: teleology_match_of_def)
  have "fst (step1_core_feature_filter self a b) =
          Inr \<lparr>s1_classification = ''NO_DIRECT'', s1_provisional_score = 3,
                s1_morphology_match = None, s1_teleology_match = None,
                s1_rationale =
                  ''Concepts share neither structural elements nor regulatory objectives.''\<rparr>"
    by (simp add: step1_fst t assms(1))
  then show ?thesis by (simp add: analyze_fst)
qed

text \<open>
  Claim C3 says that \<open>analyze\<close> returns NO\_DIRECT with score 3.0, interval \<open>d = 3.0\<close>
  and \<open>step_reached = 1\<close> for every pair of concepts whose element sets are disjoint and
  whose objectives are neither equal up to case nor overlapping by the heuristic, with or
  without a functional test. The pair below meets these conditions: its element sets are
  disjoint, its objectives differ after \<open>lower\<close>, and the heuristic does not answer that
  they overlap. On it the code returns no result: the heuristic divides by zero, with and
  without a functional test.
\<close>

theorem analyze_disjoint_blank_objectives_raise:
  "set (constituent_elements blank_levy) \<inter> set (constituent_elements blank_writ) = {}
   \<and> py_lower (regulatory_objective blank_levy) \<noteq> py_lower (regulatory_objective blank_writ)
   \<and> objectives_substantially_overlap (regulatory_objective blank_levy)
         (regulatory_objective blank_writ) \<noteq> Inr True
   \<and> fst (analyze fresh blank_levy blank_writ None) = Inl ZeroDivisionError
   \<and> fst (analyze fresh blank_levy blank_writ (Some (test_of 0.97 ''low'' 1)))
       = Inl ZeroDivisionError"
  unfolding fresh_def blank_levy_def blank_writ_def test_of_def by code_simp

subsection \<open>C4: total equivalence of concepts that agree\<close>

text \<open>
  Claim C4. For every pair of concepts with the same constituent elements and the same
  regulatory objective, \<open>analyze\<close> with a functional test of rate 0.97, friction \<open>low\<close>
  and iteration threshold 1 returns TOTAL with score 0.0 and \<open>step_reached = 3\<close>; the
  element lists may be empty.
\<close>

theorem analyze_total_on_equal_concepts:
  assumes "constituent_elements a = constituent_elements b"
      and "regulatory_objective a = regulatory_objective b"
      and "reliability_rate ft = 0.97"
      and "procedural_friction ft = ''low''"
      and "iteration_threshold ft = 1"
  shows "fst (analyze self a b (Some ft)) =
           Inr \<lparr>distance_score = 0.0, level = TOTAL, confidence_interval = ''d = 0.0'',
                 rationale =
                   ''Concepts are superimposable - perfect one-to-one match in all dimensions'',
                 step_reached = 3\<rparr>"
proof -
  have t: "teleology_match_of (regulatory_objective a) (regulatory_objective b) = Inr True"
    by (simp add: teleology_match_of_def assms(2))
  have s1: "\<exists>s1. fst (step1_core_feature_filter self a b) = Inr s1
                \<and> s1_classification s1 = ''PARTIAL''"
    by (simp add: step1_fst t Let_def)
  then obtain s1 where s1: "fst (step1_core_feature_filter self a b) = Inr s1"
      "s1_classification s1 = ''PARTIAL''"
    by blast
  have s2: "s2_outcomes_converge (fst (step2_same_outcome_filter self ft))"
       "s2_functional_score (fst (step2_same_outcome_filter self ft)) = Some 0.15"
    by (simp_all add: step2_fst assms(3,4,5) Let_def)
  have s3: "fst (step3_perfect_substitution_filter self a b ft) =
              \<lparr>s3_perfect_substitution = True,
                s3_rationale =
                  ''Concepts are superimposable - perfect one-to-one match in all dimensions''\<rparr>"
    by (simp add: step3_fst assms(1,2,4))
  show ?thesis
    by (simp add: analyze_fst s1 s2 s3 Let_def)
qed

theorem analyze_total_on_equal_concepts_witness:
  "fst (analyze fresh bare (bare\<lparr>name := ''Twin'', jurisdiction := ''Y''\<rparr>)
          (Some (test_of 0.97 ''low'' 1))) =
     Inr \<lparr>distance_score = 0.0, level = TOTAL, confidence_interval = ''d = 0.0'',
           rationale =
             ''Concepts are superimposable - perfect one-to-one match in all dimensions'',
           step_reached = 3\<rparr>
   \<and> constituent_elements bare = []"
  using analyze_total_on_equal_concepts
          [of bare "bare\<lparr>name := ''Twin'', jurisdiction := ''Y''\<rparr>" "test_of 0.97 ''low'' 1" fresh]
  by (simp add: bare_def test_of_def)

subsection \<open>C5: Gate 3 compares the objectives exactly\<close>

text \<open>
  Claim C5. For every pair of concepts that passes Gate 1 and whose objective strings
  differ (as strings, case included), \<open>analyze\<close> with a functional test of rate 0.96,
  friction \<open>low\<close> and iteration threshold 1 returns FUNCTIONAL\_STRONG with interval
  \<open>d = 0.1-0.4\<close> and score 0.15, and never TOTAL, also when Gate 1 matched the
  objectives up to case.
\<close>

theorem analyze_functional_strong_on_distinct_objectives:
  assumes "fst (step1_core_feature_filter eng a b) = Inr s1"
      and "s1_classification s1 = ''PARTIAL''"
      and "regulatory_objective a \<noteq> regulatory_objective b"
      and "reliability_rate ft = 0.96"
      and "procedural_friction ft = ''low''"
      and "iteration_threshold ft = 1"
  shows "\<exists>r. fst (analyze self a b (Some ft)) = Inr r
           \<and> level r = FUNCTIONAL_STRONG
           \<and> level r \<noteq> TOTAL
           \<and> confidence_interval r = ''d = 0.1-0.4''
           \<and> distance_score r = 0.15
           \<and> step_reached r = 3"
proof -
  from assms(1) have s1: "fst (step1_core_feature_filter self a b) = Inr s1"
    using step1_fst_engine [of self a b eng] by simp
  from assms(2) have nd: "s1_classification s1 \<noteq> ''NO_DIRECT''" by simp
  have s2: "s2_outcomes_converge (fst (step2_same_outcome_filter self ft))"
       "s2_functional_score (fst (step2_same_outcome_filter self ft)) = Some 0.15"
    by (simp_all add: step2_fst assms(4,5,6) Let_def)
  have s3: "\<not> s3_perfect_substitution (fst (step3_perfect_substitution_filter self a b ft))"
    by (simp add: step3_fst assms(3))
  have "fst (analyze self a b (Some ft)) =
          Inr (finalize_functional_equivalent 0.15
                 (s2_rationale (fst (step2_same_outcome_filter self ft))))"
    by (simp add: analyze_fst s1 nd s2 s3 Let_def)
  then show ?thesis
    by (simp add: finalize_functional_equivalent_def)
qed

theorem analyze_functional_strong_on_distinct_objectives_witness:
  "regulatory_objective amparo \<noteq> regulatory_objective writ
   \<and> py_lower (regulatory_objective amparo) = py_lower (regulatory_objective writ)
   \<and> (\<exists>r. fst (analyze fresh amparo writ (Some (test_of 0.96 ''low'' 1))) = Inr r
           \<and> level r = FUNCTIONAL_STRONG
           \<and> level r \<noteq> TOTAL
           \<and> confidence_interval r = ''d = 0.1-0.4''
           \<and> distance_score r = 0.15
           \<and> step_reached r = 3)"
proof -
  have h1: "fst (step1_core_feature_filter fresh amparo writ) =
              Inr \<lparr>s1_classification = ''PARTIAL'', s1_provisional_score = 2.0,
                    s1_morphology_match = Some 3, s1_teleology_match = Some True,
                    s1_rationale = ''Strong feature overlap detected (3 structural + teleological alignment)''\<rparr>"
    unfolding fresh_def amparo_def writ_def by code_simp
  have h3: "regulatory_objective amparo \<noteq> regulatory_objective writ"
    unfolding amparo_def writ_def by simp
  have h4: "py_lower (regulatory_objective amparo) = py_lower (regulatory_objective writ)"
    unfolding amparo_def writ_def by code_simp
  from analyze_functional_strong_on_distinct_objectives
         [OF h1 _ h3, of "test_of 0.96 ''low'' 1" fresh] h3 h4
  show ?thesis by (simp add: test_of_def)
qed

subsection \<open>C6: no functional test\<close>

text \<open>
  Claim C6. For every pair of concepts that Gate 1 does not classify as NO\_DIRECT,
  \<open>analyze\<close> without a functional test returns a Partial result with
  \<open>step_reached = 2\<close>: three or more shared elements give PARTIAL\_STRONG with score
  2.0, one or two give PARTIAL\_STANDARD with 2.5, and none (the objectives alone
  matched) gives PARTIAL\_WEAK with 2.9.
\<close>

theorem analyze_partial_without_functional_test:
  assumes "fst (step1_core_feature_filter eng a b) = Inr s1"
      and "s1_classification s1 \<noteq> ''NO_DIRECT''"
  shows "\<exists>r. fst (analyze self a b None) = Inr r
           \<and> step_reached r = 2
           \<and> (3 \<le> card (set (constituent_elements a) \<inter> set (constituent_elements b))
                \<longrightarrow> level r = PARTIAL_STRONG \<and> distance_score r = 2.0)
           \<and> (card (set (constituent_elements a) \<inter> set (constituent_elements b)) = 1
                \<or> card (set (constituent_elements a) \<inter> set (constituent_elements b)) = 2
                \<longrightarrow> level r = PARTIAL_STANDARD \<and> distance_score r = 2.5)
           \<and> (card (set (constituent_elements a) \<inter> set (constituent_elements b)) = 0
                \<longrightarrow> level r = PARTIAL_WEAK \<and> distance_score r = 2.9)"
proof -
  let ?n = "card (set (constituent_elements a) \<inter> set (constituent_elements b))"
  let ?s = "if 3 \<le> ?n then 2.0 else if 1 \<le> ?n then 2.5 else (2.9::real)"
  from assms(1) have s1: "fst (step1_core_feature_filter self a b) = Inr s1"
    using step1_fst_engine [of self a b eng] by simp
  from step1_partial_count [OF assms] have sc: "s1_provisional_score s1 = ?s" .
  have mem: "?s \<in> {2.0, 2.5, 2.9}" by simp
  have "fst (analyze self a b None) = Inr (finalize_partial_equivalent ?s (s1_rationale s1))"
    by (simp add: analyze_fst s1 assms(2) sc)
  then have r: "fst (analyze self a b None) =
      Inr \<lparr>distance_score = ?s,
             level = (if ?s = 2.0 then PARTIAL_STRONG else if ?s = 2.5 then PARTIAL_STANDARD
                      else PARTIAL_WEAK),
             confidence_interval = (if ?s = 2.0 then ''d = 2.0-2.1''
                                    else if ?s = 2.5 then ''d = 2.2-2.7'' else ''d = 2.8-2.9''),
             rationale = s1_rationale s1 @ '' (Structural overlap but functional divergence)'',
             step_reached = 2\<rparr>"
    by (simp only: finalize_partial_level [OF mem])
  show ?thesis
    unfolding r by auto
qed

theorem analyze_partial_without_functional_test_witness:
  "(\<exists>r. fst (analyze fresh amparo writ None) = Inr r \<and> step_reached r = 2
         \<and> level r = PARTIAL_STRONG \<and> distance_score r = 2.0)
   \<and> (\<exists>r. fst (analyze fresh amparo tutela None) = Inr r \<and> step_reached r = 2
         \<and> level r = PARTIAL_STANDARD \<and> distance_score r = 2.5)
   \<and> (\<exists>r. fst (analyze fresh bare amparo None) = Inr r \<and> step_reached r = 2
         \<and> level r = PARTIAL_WEAK \<and> distance_score r = 2.9)"
proof -
  have h1: "fst (step1_core_feature_filter fresh amparo writ) =
              Inr \<lparr>s1_classification = ''PARTIAL'', s1_provisional_score = 2.0,
                    s1_morphology_match = Some 3, s1_teleology_match = Some True,
                    s1_rationale =
                      ''Strong feature overlap detected (3 structural + teleological alignment)''\<rparr>"
    unfolding fresh_def amparo_def writ_def by code_simp
  have n1: "card (set (constituent_elements amparo) \<inter> set (constituent_elements writ)) = 3"
    unfolding amparo_def writ_def by code_simp
  have h2: "fst (step1_core_feature_filter fresh amparo tutela) =
              Inr \<lparr>s1_classification = ''PARTIAL'', s1_provisional_score = 2.5,
                    s1_morphology_match = Some 1, s1_teleology_match = Some False,
                    s1_rationale =
                      ''Standard feature overlap detected (1 structural + teleological alignment)''\<rparr>"
    unfolding fresh_def amparo_def tutela_def by code_simp
  have n2: "card (set (constituent_elements amparo) \<inter> set (constituent_elements tutela)) = 1"
    unfolding amparo_def tutela_def by code_simp
  have h3: "fst (step1_core_feature_filter fresh bare amparo) =
              Inr \<lparr>s1_classification = ''PARTIAL'', s1_provisional_score = 2.9,
                    s1_morphology_match = Some 0, s1_teleology_match = Some True,
                    s1_rationale =
                      ''Weak feature overlap detected (0 structural + teleological alignment)''\<rparr>"
    unfolding fresh_def amparo_def bare_def by code_simp
  have n3: "card (set (constituent_elements bare) \<inter> set (constituent_elements amparo)) = 0"
    unfolding amparo_def bare_def by code_simp
  from analyze_partial_without_functional_test [OF h1, of fresh]
  have r1: "\<exists>r. fst (analyze fresh amparo writ None) = Inr r \<and> step_reached r = 2
         \<and> level r = PARTIAL_STRONG \<and> distance_score r = 2.0"
    unfolding n1 by simp
  from analyze_partial_without_functional_test [OF h2, of fresh]
  have r2: "\<exists>r. fst (analyze fresh amparo tutela None) = Inr r \<and> step_reached r = 2
         \<and> level r = PARTIAL_STANDARD \<and> distance_score r = 2.5"
    unfolding n2 by simp
  from analyze_partial_without_functional_test [OF h3, of fresh]
  have r3: "\<exists>r. fst (analyze fresh bare amparo None) = Inr r \<and> step_reached r = 2
         \<and> level r = PARTIAL_WEAK \<and> distance_score r = 2.9"
    unfolding n3 by simp
  from r1 r2 r3 show ?thesis by blast
qed

subsection \<open>C7: an objective without tokens makes the heuristic divide by zero\<close>

text \<open>In the model \<open>split\<close> returns no token exactly on a string of ASCII whitespace (the
  empty string included), and the heuristic raises exactly when neither objective has a
  token.\<close>

lemma split_ws_Nil:
  "split_ws w s = [] \<longleftrightarrow> w = [] \<and> (\<forall>c \<in> set s. py_isspace c)"
  by (induction s arbitrary: w) auto

lemma py_split_Nil: "py_split s = [] \<longleftrightarrow> (\<forall>c \<in> set s. py_isspace c)"
  by (simp add: py_split_def split_ws_Nil)

lemma overlap_raises_iff:
  "objectives_substantially_overlap obj_a obj_b = Inl e \<longleftrightarrow>
     e = ZeroDivisionError \<and> py_split (py_lower obj_a) = [] \<and> py_split (py_lower obj_b) = []"
  by (auto simp: objectives_substantially_overlap_def Let_def max_def split: if_splits)

lemma step1_raises_iff:
  "fst (step1_core_feature_filter self a b) = Inl e \<longleftrightarrow>
     e = ZeroDivisionError
     \<and> py_lower (regulatory_objective a) \<noteq> py_lower (regulatory_objective b)
     \<and> py_split (py_lower (regulatory_objective a)) = []
     \<and> py_split (py_lower (regulatory_objective b)) = []"
proof -
  have "fst (step1_core_feature_filter self a b) = Inl e \<longleftrightarrow>
          teleology_match_of (regulatory_objective a) (regulatory_objective b) = Inl e"
    by (simp add: step1_fst Let_def split: sum.splits)
  also have "\<dots> \<longleftrightarrow> py_lower (regulatory_objective a) \<noteq> py_lower (regulatory_objective b)
      \<and> objectives_substantially_overlap (regulatory_objective a) (regulatory_objective b) = Inl e"
    by (simp add: teleology_match_of_def)
  finally show ?thesis
    by (auto simp: overlap_raises_iff)
qed

text \<open>In the model \<open>analyze\<close> raises exactly when the objectives differ after \<open>lower\<close> and
  neither has a token; the error is the division by zero of the heuristic, and no
  \<open>KeyError\<close> occurs. (Python also takes Unicode whitespace for whitespace, so the code
  raises on more strings than these.)\<close>

lemma analyze_raises_iff:
  "fst (analyze self a b ft) = Inl e \<longleftrightarrow>
     e = ZeroDivisionError
     \<and> py_lower (regulatory_objective a) \<noteq> py_lower (regulatory_objective b)
     \<and> py_split (py_lower (regulatory_objective a)) = []
     \<and> py_split (py_lower (regulatory_objective b)) = []"
proof -
  have "fst (analyze self a b ft) = Inl e \<longleftrightarrow> fst (step1_core_feature_filter self a b) = Inl e"
  proof (cases "fst (step1_core_feature_filter self a b)")
    case (Inl e')
    then show ?thesis by (simp add: analyze_fst)
  next
    case (Inr s1)
    show ?thesis
    proof (cases ft)
      case None
      with Inr show ?thesis by (simp add: analyze_fst)
    next
      case (Some f)
      show ?thesis
      proof (cases "s2_outcomes_converge (fst (step2_same_outcome_filter self f))")
        case True
        from step2_functional [OF True] obtain fs
          where "s2_functional_score (fst (step2_same_outcome_filter self f)) = Some fs"
          by blast
        with Inr Some True show ?thesis by (simp add: analyze_fst Let_def)
      next
        case False
        with Inr Some show ?thesis by (simp add: analyze_fst Let_def)
      qed
    qed
  qed
  then show ?thesis by (simp only: step1_raises_iff)
qed

text \<open>
  Claim C7 says that \<open>analyze\<close> returns a result on every input and that the overlap
  heuristic never faults, also when both objectives have no token and differ after
  \<open>lower\<close>. On the objectives \<open>''''\<close> and \<open>'' ''\<close> the code raises
  \<open>ZeroDivisionError\<close> instead.
\<close>

theorem analyze_raises_on_blank_objectives:
  "fst (analyze fresh blank_a blank_b None) = Inl ZeroDivisionError"
  unfolding fresh_def blank_a_def blank_b_def by code_simp

subsection \<open>C8: outcomes that do not converge\<close>

text \<open>Below the threshold Gate 2 returns at once; the lines it has logged by then hold
  the fact pattern, the rate and the friction.\<close>

lemma step2_diverge:
  assumes "reliability_rate ft < 0.85"
  shows "step2_same_outcome_filter self ft =
           (\<lparr>s2_outcomes_converge = False, s2_functional_score = None, s2_strength = None,
             s2_interval = None,
             s2_rationale = ''Reliability rate ('' @ format_1f (reliability_rate ft * 100)
                 @ ''%) below functional threshold''\<rparr>,
            self\<lparr>analysis_log := analysis_log self @
              [CHR 0x0A # ''=== STEP 2: FUNCTIONAL EQUIVALENCY TEST ==='',
               ''Fact pattern: '' @ fact_pattern ft,
               ''Reliability rate: '' @ format_1f (reliability_rate ft * 100) @ ''%'',
               ''Procedural friction: '' @ procedural_friction ft,
               ''RESULT: Outcomes diverge (reliability < 85%)'']\<rparr>)"
  using assms
  by (simp add: step2_same_outcome_filter_def log_append_def Let_def)

lemma analyze_diverge:
  assumes "reliability_rate ft < 0.85"
      and "fst (step1_core_feature_filter (self\<lparr>analysis_log := []\<rparr>) a b) = Inr s1"
      and "s1_classification s1 \<noteq> ''NO_DIRECT''"
  shows "analyze self a b (Some ft) =
           (Inr (finalize_partial_equivalent (s1_provisional_score s1)
                   (''Reliability rate ('' @ format_1f (reliability_rate ft * 100)
                      @ ''%) below functional threshold'')),
            snd (step2_same_outcome_filter
                   (snd (step1_core_feature_filter (self\<lparr>analysis_log := []\<rparr>) a b)) ft))"
proof -
  obtain e1 where s: "step1_core_feature_filter (self\<lparr>analysis_log := []\<rparr>) a b = (Inr s1, e1)"
    using assms(2) by (cases "step1_core_feature_filter (self\<lparr>analysis_log := []\<rparr>) a b") auto
  show ?thesis
    unfolding analyze_def Let_def s
    by (simp add: assms(3) step2_diverge [OF assms(1)])
qed

text \<open>
  Claim C8. For every functional test with \<open>reliability_rate < 0.85\<close>, negative rates
  included, Gate 2 reports that the outcomes do not converge, and \<open>analyze\<close>, on a pair
  that passed Gate 1, returns the Partial result finalized from Gate 1's provisional
  score, with \<open>step_reached = 2\<close>. The result does not depend on the friction or on the
  iteration threshold, and the log does not depend on the iteration threshold. The log
  does depend on the friction: it is the log of Gate 1 followed by the five lines of
  Gate 2, the fourth of which prints the friction.
\<close>

theorem analyze_on_divergent_outcomes:
  assumes "reliability_rate ft < 0.85"
      and "fst (step1_core_feature_filter eng a b) = Inr s1"
      and "s1_classification s1 \<noteq> ''NO_DIRECT''"
  shows "\<not> s2_outcomes_converge (fst (step2_same_outcome_filter eng2 ft))
       \<and> fst (analyze self a b (Some ft)) =
           Inr (finalize_partial_equivalent (s1_provisional_score s1)
                  (''Reliability rate ('' @ format_1f (reliability_rate ft * 100)
                     @ ''%) below functional threshold''))
       \<and> step_reached (projr (fst (analyze self a b (Some ft)))) = 2
       \<and> level (projr (fst (analyze self a b (Some ft))))
           \<in> {PARTIAL_STRONG, PARTIAL_STANDARD, PARTIAL_WEAK}
       \<and> fst (analyze self a b
                 (Some (ft\<lparr>procedural_friction := friction, iteration_threshold := n\<rparr>)))
           = fst (analyze self a b (Some ft))
       \<and> snd (analyze self a b (Some (ft\<lparr>iteration_threshold := n\<rparr>)))
           = snd (analyze self a b (Some ft))
       \<and> analysis_log (snd (analyze self a b (Some ft))) =
           analysis_log (snd (step1_core_feature_filter (self\<lparr>analysis_log := []\<rparr>) a b)) @
             [CHR 0x0A # ''=== STEP 2: FUNCTIONAL EQUIVALENCY TEST ==='',
              ''Fact pattern: '' @ fact_pattern ft,
              ''Reliability rate: '' @ format_1f (reliability_rate ft * 100) @ ''%'',
              ''Procedural friction: '' @ procedural_friction ft,
              ''RESULT: Outcomes diverge (reliability < 85%)'']"
proof -
  let ?rat = "''Reliability rate ('' @ format_1f (reliability_rate ft * 100)
                @ ''%) below functional threshold''"
  let ?r = "finalize_partial_equivalent (s1_provisional_score s1) ?rat"
  from assms(2) have s1: "fst (step1_core_feature_filter (self\<lparr>analysis_log := []\<rparr>) a b) = Inr s1"
    using step1_fst_engine [of "self\<lparr>analysis_log := []\<rparr>" a b eng] by simp
  have g2: "\<not> s2_outcomes_converge (fst (step2_same_outcome_filter eng2 ft))"
    by (simp add: step2_diverge [OF assms(1)])
  have an: "analyze self a b (Some f) =
              (Inr (finalize_partial_equivalent (s1_provisional_score s1)
                      (''Reliability rate ('' @ format_1f (reliability_rate f * 100)
                         @ ''%) below functional threshold'')),
               snd (step2_same_outcome_filter
                      (snd (step1_core_feature_filter (self\<lparr>analysis_log := []\<rparr>) a b)) f))"
    if "reliability_rate f < 0.85" for f
    by (rule analyze_diverge [OF that s1 assms(3)])
  have res: "fst (analyze self a b (Some ft)) = Inr ?r"
    by (simp add: an [OF assms(1)])
  have step: "step_reached ?r = 2"
    by (simp add: finalize_partial_equivalent_def split_beta)
  have lvl: "level ?r \<in> {PARTIAL_STRONG, PARTIAL_STANDARD, PARTIAL_WEAK}"
    by (simp add: finalize_partial_equivalent_def)
  have fr: "fst (analyze self a b
                 (Some (ft\<lparr>procedural_friction := friction, iteration_threshold := n\<rparr>)))
           = fst (analyze self a b (Some ft))"
    using assms(1) by (simp add: an)
  have it: "snd (analyze self a b (Some (ft\<lparr>iteration_threshold := n\<rparr>)))
           = snd (analyze self a b (Some ft))"
    using assms(1) by (simp add: an step2_diverge)
  have lg: "analysis_log (snd (analyze self a b (Some ft))) =
           analysis_log (snd (step1_core_feature_filter (self\<lparr>analysis_log := []\<rparr>) a b)) @
             [CHR 0x0A # ''=== STEP 2: FUNCTIONAL EQUIVALENCY TEST ==='',
              ''Fact pattern: '' @ fact_pattern ft,
              ''Reliability rate: '' @ format_1f (reliability_rate ft * 100) @ ''%'',
              ''Procedural friction: '' @ procedural_friction ft,
              ''RESULT: Outcomes diverge (reliability < 85%)'']"
    by (simp add: an [OF assms(1)] step2_diverge [OF assms(1)])
  from g2 res step lvl fr it lg show ?thesis by simp
qed

theorem analyze_on_divergent_outcomes_witness:
  "\<not> s2_outcomes_converge (fst (step2_same_outcome_filter fresh (test_of (- 0.2) ''high'' 3)))
   \<and> fst (analyze fresh amparo tutela (Some (test_of (- 0.2) ''high'' 3))) =
       Inr \<lparr>distance_score = 2.5, level = PARTIAL_STANDARD,
             confidence_interval = ''d = 2.2-2.7'',
             rationale = ''Reliability rate (-20.0%) below functional threshold''
               @ '' (Structural overlap but functional divergence)'',
             step_reached = 2\<rparr>
   \<and> fst (analyze fresh amparo tutela (Some (test_of (- 0.2) ''low'' 1)))
       = fst (analyze fresh amparo tutela (Some (test_of (- 0.2) ''high'' 3)))"
proof -
  let ?ft = "test_of (- 0.2) ''high'' 3"
  let ?s1 = "\<lparr>s1_classification = ''PARTIAL'', s1_provisional_score = 2.5,
               s1_morphology_match = Some 1, s1_teleology_match = Some False,
               s1_rationale =
                 ''Standard feature overlap detected (1 structural + teleological alignment)''\<rparr>"
  have h1: "reliability_rate ?ft < 0.85"
    by (simp add: test_of_def)
  have h2: "fst (step1_core_feature_filter fresh amparo tutela) = Inr ?s1"
    unfolding fresh_def amparo_def tutela_def by code_simp
  have h3: "s1_classification ?s1 \<noteq> ''NO_DIRECT''"
    by simp
  note t = analyze_on_divergent_outcomes
             [OF h1 h2 h3, where ?eng2.0 = fresh and self = fresh
                and friction = "''low''" and n = 1]
  have e: "finalize_partial_equivalent (s1_provisional_score ?s1)
             (''Reliability rate ('' @ format_1f (reliability_rate ?ft * 100)
                @ ''%) below functional threshold'')
           = \<lparr>distance_score = 2.5, level = PARTIAL_STANDARD,
               confidence_interval = ''d = 2.2-2.7'',
               rationale = ''Reliability rate (-20.0%) below functional threshold''
                 @ '' (Structural overlap but functional divergence)'',
               step_reached = 2\<rparr>"
    unfolding test_of_def by code_simp
  have u: "?ft\<lparr>procedural_friction := ''low'', iteration_threshold := 1\<rparr>
             = test_of (- 0.2) ''low'' 1"
    by (simp add: test_of_def)
  note c1 = t [THEN conjunct1]
  note c2 = t [THEN conjunct2, THEN conjunct1, unfolded e]
  note c5 = t [THEN conjunct2, THEN conjunct2, THEN conjunct2, THEN conjunct2, THEN conjunct1,
               unfolded u]
  from c1 c2 c5 show ?thesis by (intro conjI)
qed

text \<open>
  Claim C8 as stated, with the state of the engine unaffected by the friction, fails:
  on a pair that passes Gate 1 and a test with rate 0.5, changing only the friction
  changes the log that \<open>analyze\<close> leaves in the engine.
\<close>

theorem analyze_log_depends_on_friction_counterexample:
  "reliability_rate (test_of 0.5 ''low'' 1) < 0.85
   \<and> fst (step1_core_feature_filter fresh amparo writ) =
       Inr \<lparr>s1_classification = ''PARTIAL'', s1_provisional_score = 2.0,
             s1_morphology_match = Some 3, s1_teleology_match = Some True,
             s1_rationale =
               ''Strong feature overlap detected (3 structural + teleological alignment)''\<rparr>
   \<and> snd (analyze fresh amparo writ
             (Some ((test_of 0.5 ''low'' 1)\<lparr>procedural_friction := ''high''\<rparr>)))
       \<noteq> snd (analyze fresh amparo writ (Some (test_of 0.5 ''low'' 1)))"
  unfolding fresh_def amparo_def writ_def test_of_def by code_simp

subsection \<open>C9: the convergence vector\<close>

text \<open>Substrings of the interpretation: the direction stands before the formatted
  number, the magnitude after it.\<close>

lemma contains_append_right: "contains n ys \<Longrightarrow> contains n (xs @ ys)"
  by (induction xs) auto

lemma convergence_text:
  "contains ''Convergence'' (''Legal Convergence (+'' @ t)"
  by simp

lemma divergence_text:
  "contains ''Divergence'' (''Legal Divergence ('' @ t)"
  by simp

lemma magnitude_text:
  "contains ''High'' (pre @ num @ '') - '' @ ''High'' @ post)"
  "contains ''Incremental'' (pre @ num @ '') - '' @ ''Incremental'' @ post)"
  by (rule contains_append_right, rule contains_append_right, simp)+

lemma py_lt_asym: "py_lt x y \<Longrightarrow> \<not> py_lt y x"
  by (cases x; cases y) auto

text \<open>The subtraction is the one of doubles: the decimals 2.8 and 1.3 differ by 1.5, the
  doubles they denote by \<open>1.5 - 2 ^ -52\<close>, which prints as 1.5 and is below the
  threshold.\<close>

lemma calculate_convergence_vector_rounds:
  "calculate_convergence_vector (round_double 2.8) (round_double 1.3)
     = (Fin (6755399441055743 / 4503599627370496),
        ''Legal Convergence (+1.5) - Incremental harmonization'')"
  by code_simp

lemma calculate_convergence_vector_examples:
  "calculate_convergence_vector (round_double 2.5) (round_double 1.0)
     = (Fin 1.5, ''Legal Convergence (+1.5) - High harmonization'')"
  "calculate_convergence_vector (round_double 1.0) (round_double 1.0)
     = (Fin 0.0, ''Stable Equivalence (0.0) - No net change or Feature Shift'')"
  by code_simp+

text \<open>
  Claim C9. For all doubles \<open>d_t1\<close> and \<open>d_t2\<close>, \<open>calculate_convergence_vector\<close> returns
  their difference \<open>v\<close> (the subtraction of doubles) and an interpretation: for \<open>v > 0\<close>
  it contains \<open>Convergence\<close>, for \<open>v < 0\<close> it contains \<open>Divergence\<close>, in both cases with
  \<open>High\<close> when \<open>abs v \<ge> 1.5\<close> and \<open>Incremental\<close> otherwise, and for \<open>v = 0\<close> it
  contains \<open>Stable\<close>. In particular the inputs 2.5 and 1.0 give 1.5 with
  \<open>Convergence\<close> and \<open>High\<close>, and the inputs 1.0 and 1.0 give 0.0 with \<open>Stable\<close>.
\<close>

theorem calculate_convergence_vector_classification:
  "fst (calculate_convergence_vector d_t1 d_t2) = py_sub d_t1 d_t2
   \<and> (py_lt (Fin 0) (py_sub d_t1 d_t2) \<longrightarrow>
        contains ''Convergence'' (snd (calculate_convergence_vector d_t1 d_t2))
        \<and> (py_le (Fin 1.5) (py_abs (py_sub d_t1 d_t2)) \<longrightarrow>
             contains ''High'' (snd (calculate_convergence_vector d_t1 d_t2)))
        \<and> (\<not> py_le (Fin 1.5) (py_abs (py_sub d_t1 d_t2)) \<longrightarrow>
             contains ''Incremental'' (snd (calculate_convergence_vector d_t1 d_t2))))
   \<and> (py_lt (py_sub d_t1 d_t2) (Fin 0) \<longrightarrow>
        contains ''Divergence'' (snd (calculate_convergence_vector d_t1 d_t2))
        \<and> (py_le (Fin 1.5) (py_abs (py_sub d_t1 d_t2)) \<longrightarrow>
             contains ''High'' (snd (calculate_convergence_vector d_t1 d_t2)))
        \<and> (\<not> py_le (Fin 1.5) (py_abs (py_sub d_t1 d_t2)) \<longrightarrow>
             contains ''Incremental'' (snd (calculate_convergence_vector d_t1 d_t2))))
   \<and> (py_sub d_t1 d_t2 = Fin 0 \<longrightarrow>
        contains ''Stable'' (snd (calculate_convergence_vector d_t1 d_t2)))
   \<and> fst (calculate_convergence_vector (round_double 2.5) (round_double 1.0)) = Fin 1.5
   \<and> contains ''Convergence''
        (snd (calculate_convergence_vector (round_double 2.5) (round_double 1.0)))
   \<and> contains ''High''
        (snd (calculate_convergence_vector (round_double 2.5) (round_double 1.0)))
   \<and> fst (calculate_convergence_vector (round_double 1.0) (round_double 1.0)) = Fin 0.0
   \<and> contains ''Stable''
        (snd (calculate_convergence_vector (round_double 1.0) (round_double 1.0)))"
proof -
  let ?v = "py_sub d_t1 d_t2"
  let ?s = "snd (calculate_convergence_vector d_t1 d_t2)"
  let ?hi = "py_le (Fin 1.5) (py_abs ?v)"
  have v: "fst (calculate_convergence_vector d_t1 d_t2) = ?v"
    by (simp add: calculate_convergence_vector_def Let_def)
  have pos_hi: "?s = ''Legal Convergence (+'' @ py_format_1f ?v @ '') - '' @ ''High''
                       @ '' harmonization''"
    if "py_lt (Fin 0) ?v" "?hi"
    using that by (simp add: calculate_convergence_vector_def Let_def)
  have pos_lo: "?s = ''Legal Convergence (+'' @ py_format_1f ?v @ '') - '' @ ''Incremental''
                       @ '' harmonization''"
    if "py_lt (Fin 0) ?v" "\<not> ?hi"
    using that by (simp add: calculate_convergence_vector_def Let_def)
  have neg_hi: "?s = ''Legal Divergence ('' @ py_format_1f ?v @ '') - '' @ ''High''
                       @ '' drift''"
    if "py_lt ?v (Fin 0)" "?hi"
    using that py_lt_asym [OF that(1)]
    by (simp add: calculate_convergence_vector_def Let_def)
  have neg_lo: "?s = ''Legal Divergence ('' @ py_format_1f ?v @ '') - '' @ ''Incremental''
                       @ '' drift''"
    if "py_lt ?v (Fin 0)" "\<not> ?hi"
    using that py_lt_asym [OF that(1)]
    by (simp add: calculate_convergence_vector_def Let_def)
  have zero: "?s = ''Stable Equivalence (0.0) - No net change or Feature Shift''"
    if "?v = Fin 0"
    using that by (simp add: calculate_convergence_vector_def Let_def)
  have c1: "contains ''Convergence'' ?s" if "py_lt (Fin 0) ?v"
  proof (cases "?hi")
    case True
    show ?thesis unfolding pos_hi [OF that True] by (rule convergence_text)
  next
    case False
    show ?thesis unfolding pos_lo [OF that False] by (rule convergence_text)
  qed
  have c2: "contains ''Divergence'' ?s" if "py_lt ?v (Fin 0)"
  proof (cases "?hi")
    case True
    show ?thesis unfolding neg_hi [OF that True] by (rule divergence_text)
  next
    case False
    show ?thesis unfolding neg_lo [OF that False] by (rule divergence_text)
  qed
  have h1: "contains ''High'' ?s" if "py_lt (Fin 0) ?v" "?hi"
    unfolding pos_hi [OF that] by (rule magnitude_text)
  have h2: "contains ''High'' ?s" if "py_lt ?v (Fin 0)" "?hi"
    unfolding neg_hi [OF that] by (rule magnitude_text)
  have i1: "contains ''Incremental'' ?s" if "py_lt (Fin 0) ?v" "\<not> ?hi"
    unfolding pos_lo [OF that] by (rule magnitude_text)
  have i2: "contains ''Incremental'' ?s" if "py_lt ?v (Fin 0)" "\<not> ?hi"
    unfolding neg_lo [OF that] by (rule magnitude_text)
  have st: "contains ''Stable'' ?s" if "?v = Fin 0"
    unfolding zero [OF that] by simp
  have p1: "fst (calculate_convergence_vector (round_double 2.5) (round_double 1.0)) = Fin 1.5"
    "contains ''Convergence''
        (snd (calculate_convergence_vector (round_double 2.5) (round_double 1.0)))"
    "contains ''High''
        (snd (calculate_convergence_vector (round_double 2.5) (round_double 1.0)))"
    unfolding calculate_convergence_vector_examples by simp_all
  have p2: "fst (calculate_convergence_vector (round_double 1.0) (round_double 1.0)) = Fin 0.0"
    "contains ''Stable''
        (snd (calculate_convergence_vector (round_double 1.0) (round_double 1.0)))"
    unfolding calculate_convergence_vector_examples by simp_all
  from v c1 c2 h1 h2 i1 i2 st p1 p2 show ?thesis by blast
qed

theorem calculate_convergence_vector_classification_witness:
  "py_sub (round_double 2.8) (round_double 1.3) = Fin (6755399441055743 / 4503599627370496)
   \<and> contains ''Convergence''
        (snd (calculate_convergence_vector (round_double 2.8) (round_double 1.3)))
   \<and> contains ''Incremental''
        (snd (calculate_convergence_vector (round_double 2.8) (round_double 1.3)))
   \<and> py_sub (round_double 1.0) (round_double 2.5) = Fin (- 1.5)
   \<and> contains ''Divergence''
        (snd (calculate_convergence_vector (round_double 1.0) (round_double 2.5)))
   \<and> contains ''High''
        (snd (calculate_convergence_vector (round_double 1.0) (round_double 2.5)))
   \<and> py_sub (round_double 1.0) (round_double 1.0) = Fin 0
   \<and> contains ''Stable''
        (snd (calculate_convergence_vector (round_double 1.0) (round_double 1.0)))"
proof -
  have s1: "py_sub (round_double 2.8) (round_double 1.3)
              = Fin (6755399441055743 / 4503599627370496)"
    by code_simp
  have s2: "py_sub (round_double 1.0) (round_double 2.5) = Fin (- 1.5)"
    by code_simp
  have s3: "py_sub (round_double 1.0) (round_double 1.0) = Fin 0"
    by code_simp
  note t1 = calculate_convergence_vector_classification
              [of "round_double 2.8" "round_double 1.3", unfolded s1]
  note t2 = calculate_convergence_vector_classification
              [of "round_double 1.0" "round_double 2.5", unfolded s2]
  note t3 = calculate_convergence_vector_classification
              [of "round_double 1.0" "round_double 1.0", unfolded s3]
  have a: "contains ''Convergence''
             (snd (calculate_convergence_vector (round_double 2.8) (round_double 1.3)))
         \<and> contains ''Incremental''
             (snd (calculate_convergence_vector (round_double 2.8) (round_double 1.3)))"
    using t1 [THEN conjunct2, THEN conjunct1] by simp
  have b: "contains ''Divergence''
             (snd (calculate_convergence_vector (round_double 1.0) (round_double 2.5)))
         \<and> contains ''High''
             (snd (calculate_convergence_vector (round_double 1.0) (round_double 2.5)))"
    using t2 [THEN conjunct2, THEN conjunct2, THEN conjunct1] by simp
  have c: "contains ''Stable''
             (snd (calculate_convergence_vector (round_double 1.0) (round_double 1.0)))"
    using t3 [THEN conjunct2, THEN conjunct2, THEN conjunct2, THEN conjunct1] by simp
  from s1 s2 s3 a b c show ?thesis by (intro conjI) simp_all
qed

subsection \<open>C10: the interval is a function of the level\<close>

text \<open>
  Claim C10. Whenever \<open>analyze\<close> returns a result, its \<open>confidence_interval\<close> is
  determined by its \<open>level\<close> alone and is one of eight strings: \<open>d = 3.0\<close> exactly
  for NO\_DIRECT, \<open>d = 0.0\<close> for TOTAL, \<open>d = 2.0-2.1\<close> for PARTIAL\_STRONG,
  \<open>d = 2.2-2.7\<close> for PARTIAL\_STANDARD, \<open>d = 2.8-2.9\<close> for PARTIAL\_WEAK,
  \<open>d = 0.1-0.4\<close> for FUNCTIONAL\_STRONG, \<open>d = 0.5-1.4\<close> for FUNCTIONAL\_STANDARD and
  \<open>d = 1.5-1.9\<close> for FUNCTIONAL\_WEAK.
\<close>

theorem analyze_confidence_interval_by_level:
  assumes "fst (analyze self a b ft) = Inr r"
  shows "(confidence_interval r = ''d = 3.0'') = (level r = NO_DIRECT)
       \<and> (confidence_interval r = ''d = 0.0'') = (level r = TOTAL)
       \<and> (confidence_interval r = ''d = 2.0-2.1'') = (level r = PARTIAL_STRONG)
       \<and> (confidence_interval r = ''d = 2.2-2.7'') = (level r = PARTIAL_STANDARD)
       \<and> (confidence_interval r = ''d = 2.8-2.9'') = (level r = PARTIAL_WEAK)
       \<and> (confidence_interval r = ''d = 0.1-0.4'') = (level r = FUNCTIONAL_STRONG)
       \<and> (confidence_interval r = ''d = 0.5-1.4'') = (level r = FUNCTIONAL_STANDARD)
       \<and> (confidence_interval r = ''d = 1.5-1.9'') = (level r = FUNCTIONAL_WEAK)
       \<and> confidence_interval r \<in>
           {''d = 3.0'', ''d = 0.0'', ''d = 2.0-2.1'', ''d = 2.2-2.7'', ''d = 2.8-2.9'',
            ''d = 0.1-0.4'', ''d = 0.5-1.4'', ''d = 1.5-1.9''}"
  using assms
proof (cases rule: analyze_result_cases)
  case no_direct
  then show ?thesis by simp
next
  case total
  then show ?thesis by simp
next
  case (partial s rat)
  show ?thesis
    unfolding partial(1) finalize_partial_level [OF partial(2)] by simp
next
  case (functional s rat)
  show ?thesis
    unfolding functional(1) finalize_functional_level [OF functional(2)] by simp
qed

theorem analyze_confidence_interval_by_level_witness:
  "fst (analyze fresh amparo tutela (Some (test_of 0.5 ''high'' 3))) =
     Inr \<lparr>distance_score = 2.5, level = PARTIAL_STANDARD,
           confidence_interval = ''d = 2.2-2.7'',
           rationale = ''Reliability rate (50.0%) below functional threshold''
             @ '' (Structural overlap but functional divergence)'',
           step_reached = 2\<rparr>
   \<and> level (projr (fst (analyze fresh amparo tutela (Some (test_of 0.5 ''high'' 3)))))
       = PARTIAL_STANDARD"
proof -
  let ?r = "\<lparr>distance_score = 2.5, level = PARTIAL_STANDARD,
           confidence_interval = ''d = 2.2-2.7'',
           rationale = ''Reliability rate (50.0%) below functional threshold''
             @ '' (Structural overlap but functional divergence)'',
           step_reached = 2\<rparr>"
  have h: "fst (analyze fresh amparo tutela (Some (test_of 0.5 ''high'' 3))) = Inr ?r"
    unfolding fresh_def amparo_def tutela_def test_of_def by code_simp
  from analyze_confidence_interval_by_level [OF h]
  have "(confidence_interval ?r = ''d = 2.2-2.7'') = (level ?r = PARTIAL_STANDARD)"
    by blast
  then have "level ?r = PARTIAL_STANDARD" by simp
  with h show ?thesis by simp
qed

end
